theory Spec2Isabelle
  imports Main
begin

section \<open>Values exchanged with the outside\<close>

text \<open>
  The three JavaScript files of the repository are embedded side by side:
  \<^item> \<open>src/index.js\<close> (suffix \<open>_index\<close>),
  \<^item> the rotation file with reusable client handles, \<open>part_002\<close> lines 1 to 356
    (suffix \<open>_rot\<close>),
  \<^item> the teams file, \<open>part_002\<close> lines 357 to 802 (suffix \<open>_team\<close>).
  A function whose text is the same in several files has one definition, without suffix.

  Identifiers are strings, as the JSDoc of the classes says (\<open>@param {string}\<close>).
  A JSON text is represented by the JSON value it denotes, so \<open>JSON.stringify(v)\<close> is
  \<open>v\<close> itself and \<open>resp.json()\<close> yields the value of the body. Numbers are integers
  here; the code never computes with them.
\<close>

datatype json =
    JNull
  | JBool bool
  | JNum int
  | JStr string
  | JArr "json list"
  | JObj "(string \<times> json) list"

text \<open>
  \<open>TypeError\<close>: a property read on \<open>undefined\<close>.
  \<open>SyntaxError\<close>: \<open>resp.json()\<close> on a body that is not JSON.
\<close>

datatype error = TypeError | SyntaxError

record Member =
  victorOpsUserId :: string
  slackUserId :: string

record Record =
  victorOpsGroupId :: string
  slackUserGroupId :: string
  members :: "Member list"

record User =
  user_victorOpsUserId :: string
  user_slackUserId :: string

record Team =
  team_victorOpsGroupId :: string
  team_slackUserGroupId :: string

text \<open>
  The inbound event. \<open>ev_members\<close> is \<open>None\<close> when the event has no \<open>members\<close>
  property: \<open>handlePutRotation\<close> dereferences it.
\<close>

record event =
  ev_operation :: string
  ev_group :: string
  ev_user :: string
  ev_victorOpsGroupId :: string
  ev_slackUserGroupId :: string
  ev_members :: "Member list option"
  ev_victorOpsUserId :: string
  ev_slackUserId :: string

text \<open>
  What a handler hands back: \<open>null\<close>, the object literal \<open>{}\<close>, or
  \<open>{ body: JSON.stringify(v) }\<close>.
\<close>

datatype retval = RNull | REmptyObject | RBody json

record request =
  req_url :: string
  req_method :: string
  req_headers :: "(string \<times> string) list"
  req_body :: json

text \<open>
  The reply of \<open>fetch\<close>: \<open>resp.ok\<close>, and the value \<open>resp.json()\<close> parses
  (\<open>None\<close> when the body is not JSON).
\<close>

record response =
  resp_ok :: bool
  resp_json :: "json option"

text \<open>
  The collaborators the code does not own: the process environment, the secrets
  manager (\<open>SecretString\<close> of the reply, \<open>None\<close> for \<open>undefined\<close>), the chat API, and
  what the document client answers to a put and as \<open>Item\<close> of a delete. Their calls
  are taken to return: the store is a map that is read and written by primary key, the
  secrets manager and \<open>fetch\<close> give an answer. No function of the repository catches
  an exception, so a rejected call would leave every function below as an exception.
\<close>

record env =
  REGION :: string
  SLACK_TOKEN_SECRET_NAME :: string
  secretString :: "string \<Rightarrow> string option"
  slackApi :: "request \<Rightarrow> response"
  putOutput :: "json option"
  deleteOutputItem :: "json option"

datatype table = ROTATIONS_TABLE | TEAMS_TABLE | USERS_TABLE

datatype action =
    DbGet table string
  | DbPut table string
  | DbDelete table string
  | GetSecretValue string
  | Fetch request
  | ConsoleLog string
  | ConsoleLogReq event
  | ConsoleLogResp retval

text \<open>
  The tables of the key-value store, each a map from primary key to item, and the
  sequence of calls and log lines made so far. The document client is created with
  \<open>convertClassInstanceToMap\<close>, so an item has the fields of the class instance. The
  primary key is the attribute the code passes as \<open>Key\<close>: \<open>victorOpsGroupId\<close> for
  rotations and teams, \<open>victorOpsUserId\<close> for users.
\<close>

record state =
  rotations :: "string \<rightharpoonup> Record"
  teams :: "string \<rightharpoonup> Team"
  users :: "string \<rightharpoonup> User"
  trace :: "action list"

section \<open>Sequencing with exceptions\<close>

type_synonym 'a io = "state \<Rightarrow> (error + 'a) \<times> state"

definition io_return :: "'a \<Rightarrow> 'a io" where
  "io_return x = (\<lambda>s. (Inr x, s))"

definition io_throw :: "error \<Rightarrow> 'a io" where
  "io_throw e = (\<lambda>s. (Inl e, s))"

definition io_bind :: "'a io \<Rightarrow> ('a \<Rightarrow> 'b io) \<Rightarrow> 'b io" where
  "io_bind m f = (\<lambda>s. case m s of (Inl e, s') \<Rightarrow> (Inl e, s') | (Inr x, s') \<Rightarrow> f x s')"

definition emit :: "action \<Rightarrow> unit io" where
  "emit a = (\<lambda>s. (Inr (), s\<lparr>trace := trace s @ [a]\<rparr>))"

definition console_log :: "string \<Rightarrow> unit io" where
  "console_log msg = emit (ConsoleLog msg)"

text \<open>
  \<open>v ?? d\<close> on a JSON value that may be \<open>undefined\<close>: \<open>d\<close> when \<open>v\<close> is
  \<open>undefined\<close> or \<open>null\<close>.
\<close>

definition nullish :: "json option \<Rightarrow> json \<Rightarrow> json" where
  "nullish v d = (case v of None \<Rightarrow> d | Some JNull \<Rightarrow> d | Some j \<Rightarrow> j)"

text \<open>The requests to the chat API are the \<open>Fetch\<close> entries of a trace.\<close>

fun is_Fetch :: "action \<Rightarrow> bool" where
  "is_Fetch (Fetch r) = True"
| "is_Fetch a = False"

section \<open>The store, the secrets manager and the chat API\<close>

text \<open>\<open>docClient.get\<close> on the rotations table; the result is \<open>resp?.Item\<close>.\<close>

definition rotations_get :: "string \<Rightarrow> Record option io" where
  "rotations_get key = (\<lambda>s.
     (Inr (rotations s key), s\<lparr>trace := trace s @ [DbGet ROTATIONS_TABLE key]\<rparr>))"

definition rotations_put :: "env \<Rightarrow> Record \<Rightarrow> json option io" where
  "rotations_put E item = (\<lambda>s.
     (Inr (putOutput E),
      s\<lparr>rotations := (rotations s)(victorOpsGroupId item \<mapsto> item),
        trace := trace s @ [DbPut ROTATIONS_TABLE (victorOpsGroupId item)]\<rparr>))"

text \<open>\<open>docClient.delete\<close>; the result is \<open>resp?.Item\<close>.\<close>

definition rotations_delete :: "env \<Rightarrow> string \<Rightarrow> json option io" where
  "rotations_delete E key = (\<lambda>s.
     (Inr (deleteOutputItem E),
      s\<lparr>rotations := (rotations s)(key := None),
        trace := trace s @ [DbDelete ROTATIONS_TABLE key]\<rparr>))"

definition teams_get :: "string \<Rightarrow> Team option io" where
  "teams_get key = (\<lambda>s.
     (Inr (teams s key), s\<lparr>trace := trace s @ [DbGet TEAMS_TABLE key]\<rparr>))"

definition teams_put :: "env \<Rightarrow> Team \<Rightarrow> json option io" where
  "teams_put E item = (\<lambda>s.
     (Inr (putOutput E),
      s\<lparr>teams := (teams s)(team_victorOpsGroupId item \<mapsto> item),
        trace := trace s @ [DbPut TEAMS_TABLE (team_victorOpsGroupId item)]\<rparr>))"

definition teams_delete :: "env \<Rightarrow> string \<Rightarrow> json option io" where
  "teams_delete E key = (\<lambda>s.
     (Inr (deleteOutputItem E),
      s\<lparr>teams := (teams s)(key := None),
        trace := trace s @ [DbDelete TEAMS_TABLE key]\<rparr>))"

definition users_get :: "string \<Rightarrow> User option io" where
  "users_get key = (\<lambda>s.
     (Inr (users s key), s\<lparr>trace := trace s @ [DbGet USERS_TABLE key]\<rparr>))"

definition users_put :: "env \<Rightarrow> User \<Rightarrow> json option io" where
  "users_put E item = (\<lambda>s.
     (Inr (putOutput E),
      s\<lparr>users := (users s)(user_victorOpsUserId item \<mapsto> item),
        trace := trace s @ [DbPut USERS_TABLE (user_victorOpsUserId item)]\<rparr>))"

definition users_delete :: "env \<Rightarrow> string \<Rightarrow> json option io" where
  "users_delete E key = (\<lambda>s.
     (Inr (deleteOutputItem E),
      s\<lparr>users := (users s)(key := None),
        trace := trace s @ [DbDelete USERS_TABLE key]\<rparr>))"

text \<open>\<open>fetch(url, init)\<close>: the request goes out and the chat API answers.\<close>

definition fetch :: "env \<Rightarrow> request \<Rightarrow> response io" where
  "fetch E r = io_bind (emit (Fetch r)) (\<lambda>_. io_return (slackApi E r))"

text \<open>\<open>resp.json()\<close>.\<close>

definition response_json :: "response \<Rightarrow> json io" where
  "response_json r = (case resp_json r of None \<Rightarrow> io_throw SyntaxError | Some j \<Rightarrow> io_return j)"

text \<open>
  \<open>SecretsStore.getSecret\<close> (\<open>src/index.js\<close> 52-62, rotation file 95-101, teams file
  432-438): sends \<open>GetSecretValueCommand\<close> and returns \<open>secretValue.SecretString\<close>.
\<close>

definition SecretsStore_getSecret :: "env \<Rightarrow> string \<Rightarrow> string \<Rightarrow> string option io" where
  "SecretsStore_getSecret E secretName region =
     io_bind (emit (GetSecretValue secretName)) (\<lambda>_. io_return (secretString E secretName))"

section \<open>Serialisation of the class instances\<close>

definition Member_json :: "Member \<Rightarrow> json" where
  "Member_json m =
     JObj [(''victorOpsUserId'', JStr (victorOpsUserId m)), (''slackUserId'', JStr (slackUserId m))]"

definition Record_json :: "Record \<Rightarrow> json" where
  "Record_json r =
     JObj [(''victorOpsGroupId'', JStr (victorOpsGroupId r)),
           (''slackUserGroupId'', JStr (slackUserGroupId r)),
           (''members'', JArr (map Member_json (members r)))]"

definition Team_json :: "Team \<Rightarrow> json" where
  "Team_json t =
     JObj [(''victorOpsGroupId'', JStr (team_victorOpsGroupId t)),
           (''slackUserGroupId'', JStr (team_slackUserGroupId t))]"

definition User_json :: "User \<Rightarrow> json" where
  "User_json u =
     JObj [(''victorOpsUserId'', JStr (user_victorOpsUserId u)),
           (''slackUserId'', JStr (user_slackUserId u))]"

text \<open>Reading the property \<open>name\<close> of a \<open>Record\<close> instance; \<open>None\<close> is \<open>undefined\<close>.\<close>

definition Record_property :: "Record \<Rightarrow> string \<Rightarrow> json option" where
  "Record_property r name = map_of (case Record_json r of JObj kvs \<Rightarrow> kvs | _ \<Rightarrow> []) name"

section \<open>The member lookup\<close>

text \<open>
  \<open>src/index.js\<close> 38-48: a \<open>for\<close> loop over \<open>this.members\<close> that stores the first
  match in \<open>slackUserId\<close> (initially \<open>null\<close>) and breaks.
\<close>

fun getSlackUserId_loop :: "Member list \<Rightarrow> string \<Rightarrow> string option \<Rightarrow> string option" where
  "getSlackUserId_loop [] uid acc = acc"
| "getSlackUserId_loop (member # rest) uid acc =
     (if victorOpsUserId member = uid then Some (slackUserId member)
      else getSlackUserId_loop rest uid acc)"

definition getSlackUserId_index :: "Record \<Rightarrow> string \<Rightarrow> string option" where
  "getSlackUserId_index this uid = getSlackUserId_loop (members this) uid None"

text \<open>
  Rotation file 75-80: \<open>this.members.find(...)\<close>, then \<open>member?.slackUserId\<close>.
\<close>

definition getSlackUserId_rot :: "Record \<Rightarrow> string \<Rightarrow> string option" where
  "getSlackUserId_rot this uid =
     map_option slackUserId (find (\<lambda>m. victorOpsUserId m = uid) (members this))"

section \<open>The membership updater\<close>

definition usergroups_request :: "string \<Rightarrow> string \<Rightarrow> string \<Rightarrow> request" where
  "usergroups_request slackUserGroup slackUser botUserOAuthToken =
     \<lparr>req_url = ''https://slack.com/api/usergroups.users.update'',
      req_method = ''POST'',
      req_headers = [(''Content-Type'', ''application/json; charset=utf8''),
                     (''Authorization'', ''Bearer '' @ botUserOAuthToken)],
      req_body = JObj [(''usergroup'', JStr slackUserGroup), (''users'', JStr slackUser)]\<rparr>"

text \<open>\<open>src/index.js\<close> 65-86: no look at \<open>resp.ok\<close>.\<close>

definition updateSlackUserGroup_index :: "env \<Rightarrow> string \<Rightarrow> string \<Rightarrow> string \<Rightarrow> json io" where
  "updateSlackUserGroup_index E slackUserGroup slackUser botUserOAuthToken =
     io_bind (fetch E (usergroups_request slackUserGroup slackUser botUserOAuthToken))
       (\<lambda>resp. response_json resp)"

text \<open>Rotation file 150-175; \<open>None\<close> is the bare \<open>return\<close>.\<close>

definition updateSlackUserGroup_rot :: "env \<Rightarrow> string \<Rightarrow> string \<Rightarrow> string \<Rightarrow> json option io" where
  "updateSlackUserGroup_rot E slackUserGroup slackUser botUserOAuthToken =
     io_bind (fetch E (usergroups_request slackUserGroup slackUser botUserOAuthToken))
       (\<lambda>resp.
          if \<not> resp_ok resp then
            io_bind (console_log ''Failed to update slack user group: [object Response]'')
              (\<lambda>_. io_return None)
          else io_bind (response_json resp) (\<lambda>j. io_return (Some j)))"

text \<open>Teams file 487-516: the same, after one more log line.\<close>

definition updateSlackUserGroup_team :: "env \<Rightarrow> string \<Rightarrow> string \<Rightarrow> string \<Rightarrow> json option io" where
  "updateSlackUserGroup_team E slackUserGroup slackUser botUserOAuthToken =
     io_bind (console_log (''Updating Slack User Group ('' @ slackUserGroup @ '') to User (''
                             @ slackUser @ '')''))
       (\<lambda>_. updateSlackUserGroup_rot E slackUserGroup slackUser botUserOAuthToken)"

section \<open>The rotation handlers\<close>

text \<open>\<open>getRotation\<close>: \<open>src/index.js\<close> 156-183 and rotation file 261-284.\<close>

definition getRotation :: "string \<Rightarrow> Record option io" where
  "getRotation gid =
     io_bind (rotations_get gid)
       (\<lambda>item. case item of
          None \<Rightarrow>
            io_bind (console_log (''Rotation not found for victorOpsGroupId: '' @ gid))
              (\<lambda>_. io_return None)
        | Some i \<Rightarrow>
            io_return (Some \<lparr>victorOpsGroupId = victorOpsGroupId i,
                             slackUserGroupId = slackUserGroupId i,
                             members = map (\<lambda>member. \<lparr>victorOpsUserId = victorOpsUserId member,
                                                       slackUserId = slackUserId member\<rparr>)
                                           (members i)\<rparr>))"

text \<open>\<open>src/index.js\<close> 88-126.\<close>

definition handleUpdateOnCall_index :: "env \<Rightarrow> event \<Rightarrow> retval io" where
  "handleUpdateOnCall_index E ev =
     io_bind (getRotation (ev_group ev))
       (\<lambda>record. case record of
          None \<Rightarrow>
            io_bind (console_log (''Rotation not found for victorOpsGroupId: '' @ ev_group ev))
              (\<lambda>_. io_return RNull)
        | Some r \<Rightarrow>
            let slackUser = getSlackUserId_index r (ev_user ev) in
            io_bind (SecretsStore_getSecret E (SLACK_TOKEN_SECRET_NAME E) (REGION E))
              (\<lambda>secret. case slackUser of
                 None \<Rightarrow>
                   io_bind (console_log (''Slack user ID not found for victorOpsUserId: ''
                                           @ ev_user ev))
                     (\<lambda>_. io_return RNull)
               | Some su \<Rightarrow>
                   (case secret of
                      None \<Rightarrow>
                        io_bind (console_log (''Failed to retrieve secret: ''
                                                @ SLACK_TOKEN_SECRET_NAME E))
                          (\<lambda>_. io_return RNull)
                    | Some tok \<Rightarrow>
                        io_bind (updateSlackUserGroup_index E (slackUserGroupId r) su tok)
                          (\<lambda>resp. io_return (RBody resp)))))"

text \<open>Rotation file 185-224.\<close>

definition handleUpdateOnCall_rot :: "env \<Rightarrow> event \<Rightarrow> retval io" where
  "handleUpdateOnCall_rot E ev =
     io_bind (getRotation (ev_group ev))
       (\<lambda>record. case record of
          None \<Rightarrow>
            io_bind (console_log (''Rotation not found for victorOpsGroupId: '' @ ev_group ev))
              (\<lambda>_. io_return RNull)
        | Some r \<Rightarrow>
            (case getSlackUserId_rot r (ev_user ev) of
               None \<Rightarrow>
                 io_bind (console_log (''Slack user ID not found for victorOpsUserId: ''
                                         @ ev_user ev))
                   (\<lambda>_. io_return RNull)
             | Some su \<Rightarrow>
                 io_bind (SecretsStore_getSecret E (SLACK_TOKEN_SECRET_NAME E) (REGION E))
                   (\<lambda>secret. case secret of
                      None \<Rightarrow>
                        io_bind (console_log (''Failed to retrieve secret: ''
                                                @ SLACK_TOKEN_SECRET_NAME E))
                          (\<lambda>_. io_return RNull)
                    | Some tok \<Rightarrow>
                        io_bind (updateSlackUserGroup_rot E (slackUserGroupId r) su tok)
                          (\<lambda>resp. io_return (RBody (nullish resp (JObj [])))))))"

text \<open>
  The record that \<open>handlePutRotation\<close> builds; the arguments of \<open>new Record\<close> are
  evaluated first, so \<open>event.members.map\<close> on \<open>undefined\<close> throws before anything else.
\<close>

definition new_Record_of_event :: "event \<Rightarrow> Record io" where
  "new_Record_of_event ev =
     (case ev_members ev of
        None \<Rightarrow> io_throw TypeError
      | Some ms \<Rightarrow>
          io_return \<lparr>victorOpsGroupId = ev_victorOpsGroupId ev,
                     slackUserGroupId = ev_slackUserGroupId ev,
                     members = map (\<lambda>member. \<lparr>victorOpsUserId = victorOpsUserId member,
                                               slackUserId = slackUserId member\<rparr>) ms\<rparr>)"

text \<open>\<open>src/index.js\<close> 128-154: returns the literal \<open>{}\<close>.\<close>

definition handlePutRotation_index :: "env \<Rightarrow> event \<Rightarrow> retval io" where
  "handlePutRotation_index E ev =
     io_bind (new_Record_of_event ev)
       (\<lambda>record. io_bind (rotations_put E record) (\<lambda>_. io_return REmptyObject))"

text \<open>Rotation file 232-252.\<close>

definition handlePutRotation_rot :: "env \<Rightarrow> event \<Rightarrow> retval io" where
  "handlePutRotation_rot E ev =
     io_bind (new_Record_of_event ev)
       (\<lambda>record. io_bind (rotations_put E record)
          (\<lambda>resp. io_return (RBody (nullish resp (JObj [])))))"

text \<open>\<open>src/index.js\<close> 185-196: \<open>resp?.Item ?? {}\<close> on what \<open>getRotation\<close> returned.\<close>

definition handleGetRotation_index :: "event \<Rightarrow> retval io" where
  "handleGetRotation_index ev =
     io_bind (getRotation (ev_victorOpsGroupId ev))
       (\<lambda>resp. io_return
          (RBody (nullish (case resp of None \<Rightarrow> None | Some r \<Rightarrow> Record_property r ''Item'')
                          (JObj []))))"

text \<open>Rotation file 293-304: \<open>resp ?? {}\<close>.\<close>

definition handleGetRotation_rot :: "event \<Rightarrow> retval io" where
  "handleGetRotation_rot ev =
     io_bind (getRotation (ev_victorOpsGroupId ev))
       (\<lambda>resp. io_return
          (RBody (case resp of None \<Rightarrow> JObj [] | Some r \<Rightarrow> Record_json r)))"

text \<open>\<open>src/index.js\<close> 198-218 and rotation file 312-328.\<close>

definition handleDeleteRotation :: "env \<Rightarrow> event \<Rightarrow> retval io" where
  "handleDeleteRotation E ev =
     io_bind (rotations_delete E (ev_victorOpsGroupId ev))
       (\<lambda>item. io_return (RBody (nullish item (JObj []))))"

section \<open>The teams-and-users handlers\<close>

definition getTeam :: "string \<Rightarrow> Team option io" where
  "getTeam gid =
     io_bind (teams_get gid)
       (\<lambda>item. case item of
          None \<Rightarrow>
            io_bind (console_log (''Team not found for victorOpsGroupId: '' @ gid))
              (\<lambda>_. io_return None)
        | Some i \<Rightarrow>
            io_return (Some \<lparr>team_victorOpsGroupId = team_victorOpsGroupId i,
                             team_slackUserGroupId = team_slackUserGroupId i\<rparr>))"

definition getUser :: "string \<Rightarrow> User option io" where
  "getUser uid =
     io_bind (users_get uid)
       (\<lambda>item. case item of
          None \<Rightarrow>
            io_bind (console_log (''User not found for victorOpsUserId: '' @ uid))
              (\<lambda>_. io_return None)
        | Some i \<Rightarrow>
            io_return (Some \<lparr>user_victorOpsUserId = user_victorOpsUserId i,
                             user_slackUserId = user_slackUserId i\<rparr>))"

definition handleUpdateOnCall_team :: "env \<Rightarrow> event \<Rightarrow> retval io" where
  "handleUpdateOnCall_team E ev =
     io_bind (getTeam (ev_group ev))
       (\<lambda>team. case team of
          None \<Rightarrow>
            io_bind (console_log (''Team not found for victorOpsGroupId: '' @ ev_group ev))
              (\<lambda>_. io_return RNull)
        | Some t \<Rightarrow>
            io_bind (getUser (ev_user ev))
              (\<lambda>user. case user of
                 None \<Rightarrow>
                   io_bind (console_log (''User not found for victorOpsUserId: '' @ ev_user ev))
                     (\<lambda>_. io_return RNull)
               | Some u \<Rightarrow>
                   io_bind (SecretsStore_getSecret E (SLACK_TOKEN_SECRET_NAME E) (REGION E))
                     (\<lambda>secret. case secret of
                        None \<Rightarrow>
                          io_bind (console_log (''Failed to retrieve secret: ''
                                                  @ SLACK_TOKEN_SECRET_NAME E))
                            (\<lambda>_. io_return RNull)
                      | Some tok \<Rightarrow>
                          io_bind (updateSlackUserGroup_team E (team_slackUserGroupId t)
                                     (user_slackUserId u) tok)
                            (\<lambda>resp. io_return (RBody (nullish resp (JObj [])))))))"

definition handlePutTeam :: "env \<Rightarrow> event \<Rightarrow> retval io" where
  "handlePutTeam E ev =
     io_bind (teams_put E \<lparr>team_victorOpsGroupId = ev_victorOpsGroupId ev,
                           team_slackUserGroupId = ev_slackUserGroupId ev\<rparr>)
       (\<lambda>resp. io_return (RBody (nullish resp (JObj []))))"

definition handleGetTeam :: "event \<Rightarrow> retval io" where
  "handleGetTeam ev =
     io_bind (getTeam (ev_victorOpsGroupId ev))
       (\<lambda>resp. io_return (RBody (case resp of None \<Rightarrow> JObj [] | Some t \<Rightarrow> Team_json t)))"

definition handleDeleteTeam :: "env \<Rightarrow> event \<Rightarrow> retval io" where
  "handleDeleteTeam E ev =
     io_bind (teams_delete E (ev_victorOpsGroupId ev))
       (\<lambda>item. io_return (RBody (nullish item (JObj []))))"

definition handlePutUser :: "env \<Rightarrow> event \<Rightarrow> retval io" where
  "handlePutUser E ev =
     io_bind (users_put E \<lparr>user_victorOpsUserId = ev_victorOpsUserId ev,
                           user_slackUserId = ev_slackUserId ev\<rparr>)
       (\<lambda>resp. io_return (RBody (nullish resp (JObj []))))"

definition handleGetUser :: "event \<Rightarrow> retval io" where
  "handleGetUser ev =
     io_bind (getUser (ev_victorOpsUserId ev))
       (\<lambda>resp. io_return (RBody (case resp of None \<Rightarrow> JObj [] | Some u \<Rightarrow> User_json u)))"

definition handleDeleteUser :: "env \<Rightarrow> event \<Rightarrow> retval io" where
  "handleDeleteUser E ev =
     io_bind (users_delete E (ev_victorOpsUserId ev))
       (\<lambda>item. io_return (RBody (nullish item (JObj []))))"

section \<open>The dispatchers\<close>

text \<open>
  Each \<open>handler\<close> logs the request, switches on \<open>event.operation\<close> with \<open>resp = {}\<close>
  as the value of the default branch, logs \<open>resp ?? {}\<close> and returns \<open>resp\<close>; an
  exception of the called handler ends the dispatcher before the second log line. The
  Lambda runtime supplies the \<open>context\<close> object that the rotation file and the teams
  file write to.
\<close>

definition log_resp :: "retval \<Rightarrow> retval io" where
  "log_resp resp =
     io_bind (emit (ConsoleLogResp (case resp of RNull \<Rightarrow> REmptyObject | r \<Rightarrow> r)))
       (\<lambda>_. io_return resp)"

definition unrecognized :: "string \<Rightarrow> retval io" where
  "unrecognized op =
     io_bind (console_log (''Unrecognized operation: '' @ op)) (\<lambda>_. io_return REmptyObject)"

definition handler_index :: "env \<Rightarrow> event \<Rightarrow> retval io" where
  "handler_index E ev =
     io_bind (emit (ConsoleLogReq ev))
       (\<lambda>_. let op = ev_operation ev in
          io_bind
            (if op = ''updateOnCall'' then handleUpdateOnCall_index E ev
             else if op = ''putRotation'' then handlePutRotation_index E ev
             else if op = ''getRotation'' then handleGetRotation_index ev
             else if op = ''deleteRotation'' then handleDeleteRotation E ev
             else unrecognized op)
            log_resp)"

definition handler_rot :: "env \<Rightarrow> event \<Rightarrow> retval io" where
  "handler_rot E ev =
     io_bind (emit (ConsoleLogReq ev))
       (\<lambda>_. let op = ev_operation ev in
          io_bind
            (if op = ''updateOnCall'' then handleUpdateOnCall_rot E ev
             else if op = ''putRotation'' then handlePutRotation_rot E ev
             else if op = ''getRotation'' then handleGetRotation_rot ev
             else if op = ''deleteRotation'' then handleDeleteRotation E ev
             else unrecognized op)
            log_resp)"

definition handler_team :: "env \<Rightarrow> event \<Rightarrow> retval io" where
  "handler_team E ev =
     io_bind (emit (ConsoleLogReq ev))
       (\<lambda>_. let op = ev_operation ev in
          io_bind
            (if op = ''updateOnCall'' then handleUpdateOnCall_team E ev
             else if op = ''putTeam'' then handlePutTeam E ev
             else if op = ''getTeam'' then handleGetTeam ev
             else if op = ''deleteTeam'' then handleDeleteTeam E ev
             else if op = ''putUser'' then handlePutUser E ev
             else if op = ''getUser'' then handleGetUser ev
             else if op = ''deleteUser'' then handleDeleteUser E ev
             else unrecognized op)
            log_resp)"

section \<open>A concrete deployment\<close>

text \<open>
  The mapping of the specification's example, an environment built from a secrets
  manager and a chat API, and three chat APIs: one that accepts every call, one that
  answers with a non-success status and a JSON error body, one that answers with a
  non-success status and a body that is not JSON.
\<close>

definition slack_ok :: "request \<Rightarrow> response" where
  "slack_ok r = \<lparr>resp_ok = True, resp_json = Some (JObj [(''ok'', JBool True)])\<rparr>"

definition slack_refuses :: "request \<Rightarrow> response" where
  "slack_refuses r =
     \<lparr>resp_ok = False,
      resp_json = Some (JObj [(''ok'', JBool False), (''error'', JStr ''ratelimited'')])\<rparr>"

definition slack_unavailable :: "request \<Rightarrow> response" where
  "slack_unavailable r = \<lparr>resp_ok = False, resp_json = None\<rparr>"

definition example_env :: "(string \<Rightarrow> string option) \<Rightarrow> (request \<Rightarrow> response) \<Rightarrow> env" where
  "example_env secrets api =
     \<lparr>REGION = ''us-east-1'', SLACK_TOKEN_SECRET_NAME = ''SlackToken'',
      secretString = secrets, slackApi = api,
      putOutput = Some (JObj []), deleteOutputItem = None\<rparr>"

definition example_record :: Record where
  "example_record =
     \<lparr>victorOpsGroupId = ''G1'', slackUserGroupId = ''SG1'',
      members = [\<lparr>victorOpsUserId = ''U1'', slackUserId = ''S1''\<rparr>,
                 \<lparr>victorOpsUserId = ''U2'', slackUserId = ''S2''\<rparr>]\<rparr>"

definition example_state :: state where
  "example_state =
     \<lparr>rotations = [''G1'' \<mapsto> example_record], teams = Map.empty, users = Map.empty,
      trace = []\<rparr>"

text \<open>The same mapping in the two tables of the teams file.\<close>

definition example_team_state :: state where
  "example_team_state =
     \<lparr>rotations = Map.empty,
      teams = [''G1'' \<mapsto> \<lparr>team_victorOpsGroupId = ''G1'', team_slackUserGroupId = ''SG1''\<rparr>],
      users = [''U2'' \<mapsto> \<lparr>user_victorOpsUserId = ''U2'', user_slackUserId = ''S2''\<rparr>],
      trace = []\<rparr>"

text \<open>An event for operation \<open>op\<close> about group \<open>g\<close> and user \<open>u\<close>, with \<open>ms\<close> as members.\<close>

definition example_event :: "string \<Rightarrow> string \<Rightarrow> string \<Rightarrow> Member list option \<Rightarrow> event" where
  "example_event op g u ms =
     \<lparr>ev_operation = op, ev_group = g, ev_user = u, ev_victorOpsGroupId = g,
      ev_slackUserGroupId = ''SG1'', ev_members = ms, ev_victorOpsUserId = u,
      ev_slackUserId = ''S2''\<rparr>"

section \<open>Running the building blocks\<close>

lemmas io_defs = io_return_def io_throw_def io_bind_def emit_def console_log_def fetch_def
  response_json_def SecretsStore_getSecret_def rotations_get_def rotations_put_def
  rotations_delete_def teams_get_def teams_put_def teams_delete_def users_get_def users_put_def
  users_delete_def

lemmas example_defs = slack_ok_def slack_refuses_def slack_unavailable_def example_env_def
  example_team_state_def example_record_def
  example_state_def example_event_def

text \<open>Copying the two fields of every member gives the same list.\<close>

lemma Members_rebuild:
  "map (\<lambda>member::Member. \<lparr>victorOpsUserId = victorOpsUserId member,
                            slackUserId = slackUserId member\<rparr>) ms = ms"
  by (induction ms) simp_all

lemma getRotation_run:
  "getRotation gid s =
     (case rotations s gid of
        None \<Rightarrow>
          (Inr None,
           s\<lparr>trace := trace s @ [DbGet ROTATIONS_TABLE gid,
                ConsoleLog (''Rotation not found for victorOpsGroupId: '' @ gid)]\<rparr>)
      | Some r \<Rightarrow> (Inr (Some r), s\<lparr>trace := trace s @ [DbGet ROTATIONS_TABLE gid]\<rparr>))"
  by (simp add: getRotation_def io_defs Members_rebuild split: option.splits)

text \<open>The loop of \<open>src/index.js\<close> and \<open>Array.prototype.find\<close> agree.\<close>

lemma getSlackUserId_loop_find:
  "getSlackUserId_loop ms uid acc =
     (case find (\<lambda>m. victorOpsUserId m = uid) ms of
        None \<Rightarrow> acc | Some m \<Rightarrow> Some (slackUserId m))"
  by (induction ms) simp_all

lemma getSlackUserId_index_rot: "getSlackUserId_index r uid = getSlackUserId_rot r uid"
  by (simp add: getSlackUserId_index_def getSlackUserId_rot_def getSlackUserId_loop_find
      split: option.splits)

lemma find_first:
  assumes "\<forall>x\<in>set pre. \<not> P x" and "P m"
  shows "find P (pre @ m # post) = Some m"
  using assms by (induction pre) simp_all

lemma updateSlackUserGroup_rot_run:
  "updateSlackUserGroup_rot E g u tok s =
     (let req = usergroups_request g u tok; resp = slackApi E req in
      if \<not> resp_ok resp then
        (Inr None,
         s\<lparr>trace := trace s @ [Fetch req,
              ConsoleLog ''Failed to update slack user group: [object Response]'']\<rparr>)
      else (case resp_json resp of
              None \<Rightarrow> (Inl SyntaxError, s\<lparr>trace := trace s @ [Fetch req]\<rparr>)
            | Some j \<Rightarrow> (Inr (Some j), s\<lparr>trace := trace s @ [Fetch req]\<rparr>)))"
  by (simp add: updateSlackUserGroup_rot_def io_defs Let_def split: option.splits)

lemma updateSlackUserGroup_index_run:
  "updateSlackUserGroup_index E g u tok s =
     (let req = usergroups_request g u tok; resp = slackApi E req in
      case resp_json resp of
        None \<Rightarrow> (Inl SyntaxError, s\<lparr>trace := trace s @ [Fetch req]\<rparr>)
      | Some j \<Rightarrow> (Inr j, s\<lparr>trace := trace s @ [Fetch req]\<rparr>))"
  by (simp add: updateSlackUserGroup_index_def io_defs Let_def split: option.splits)

lemma new_Record_of_event_run:
  "new_Record_of_event ev s =
     (case ev_members ev of
        None \<Rightarrow> (Inl TypeError, s)
      | Some ms \<Rightarrow> (Inr \<lparr>victorOpsGroupId = ev_victorOpsGroupId ev,
                          slackUserGroupId = ev_slackUserGroupId ev, members = ms\<rparr>, s))"
  by (simp add: new_Record_of_event_def io_defs Members_rebuild split: option.splits)

lemma handlePutRotation_rot_run:
  "handlePutRotation_rot E ev s =
     (case ev_members ev of
        None \<Rightarrow> (Inl TypeError, s)
      | Some ms \<Rightarrow>
          (Inr (RBody (nullish (putOutput E) (JObj []))),
           s\<lparr>rotations := (rotations s)(ev_victorOpsGroupId ev \<mapsto>
                 \<lparr>victorOpsGroupId = ev_victorOpsGroupId ev,
                  slackUserGroupId = ev_slackUserGroupId ev, members = ms\<rparr>),
             trace := trace s @ [DbPut ROTATIONS_TABLE (ev_victorOpsGroupId ev)]\<rparr>))"
  by (simp add: handlePutRotation_rot_def new_Record_of_event_run io_defs split: option.splits)

lemma handlePutRotation_index_run:
  "handlePutRotation_index E ev s =
     (case ev_members ev of
        None \<Rightarrow> (Inl TypeError, s)
      | Some ms \<Rightarrow>
          (Inr REmptyObject,
           s\<lparr>rotations := (rotations s)(ev_victorOpsGroupId ev \<mapsto>
                 \<lparr>victorOpsGroupId = ev_victorOpsGroupId ev,
                  slackUserGroupId = ev_slackUserGroupId ev, members = ms\<rparr>),
             trace := trace s @ [DbPut ROTATIONS_TABLE (ev_victorOpsGroupId ev)]\<rparr>))"
  by (simp add: handlePutRotation_index_def new_Record_of_event_run io_defs split: option.splits)

lemma getTeam_run:
  "getTeam gid s =
     (case teams s gid of
        None \<Rightarrow>
          (Inr None,
           s\<lparr>trace := trace s @ [DbGet TEAMS_TABLE gid,
                ConsoleLog (''Team not found for victorOpsGroupId: '' @ gid)]\<rparr>)
      | Some t \<Rightarrow> (Inr (Some t), s\<lparr>trace := trace s @ [DbGet TEAMS_TABLE gid]\<rparr>))"
  by (simp add: getTeam_def io_defs split: option.splits)

lemma getUser_run:
  "getUser uid s =
     (case users s uid of
        None \<Rightarrow>
          (Inr None,
           s\<lparr>trace := trace s @ [DbGet USERS_TABLE uid,
                ConsoleLog (''User not found for victorOpsUserId: '' @ uid)]\<rparr>)
      | Some u \<Rightarrow> (Inr (Some u), s\<lparr>trace := trace s @ [DbGet USERS_TABLE uid]\<rparr>))"
  by (simp add: getUser_def io_defs split: option.splits)

section \<open>The member lookup returns the first match\<close>

text \<open>
  C6. When the members of a record are \<open>pre @ m # post\<close>, no member of \<open>pre\<close> has the
  VictorOps user id that is looked up and \<open>m\<close> has it, the lookup returns the Slack user
  id of \<open>m\<close>, whatever \<open>post\<close> holds, so of several members with the same VictorOps
  user id the first in stored order wins. This holds for the loop of \<open>src/index.js\<close>
  and for the \<open>find\<close> of the rotation file.
\<close>

theorem getSlackUserId_first_match:
  assumes "members r = pre @ m # post"
    and "\<forall>x\<in>set pre. victorOpsUserId x \<noteq> uid"
    and "victorOpsUserId m = uid"
  shows "getSlackUserId_rot r uid = Some (slackUserId m) \<and>
         getSlackUserId_index r uid = Some (slackUserId m)"
  using assms by (simp add: getSlackUserId_index_rot getSlackUserId_rot_def find_first)

theorem getSlackUserId_first_match_witness:
  "getSlackUserId_rot
     \<lparr>victorOpsGroupId = ''G1'', slackUserGroupId = ''SG1'',
      members = [\<lparr>victorOpsUserId = ''U1'', slackUserId = ''S1''\<rparr>,
                 \<lparr>victorOpsUserId = ''U2'', slackUserId = ''S2''\<rparr>,
                 \<lparr>victorOpsUserId = ''U2'', slackUserId = ''S3''\<rparr>]\<rparr> ''U2'' = Some ''S2''
   \<and> getSlackUserId_index
     \<lparr>victorOpsGroupId = ''G1'', slackUserGroupId = ''SG1'',
      members = [\<lparr>victorOpsUserId = ''U1'', slackUserId = ''S1''\<rparr>,
                 \<lparr>victorOpsUserId = ''U2'', slackUserId = ''S2''\<rparr>,
                 \<lparr>victorOpsUserId = ''U2'', slackUserId = ''S3''\<rparr>]\<rparr> ''U2'' = Some ''S2''"
  using getSlackUserId_first_match
    [of "\<lparr>victorOpsGroupId = ''G1'', slackUserGroupId = ''SG1'',
          members = [\<lparr>victorOpsUserId = ''U1'', slackUserId = ''S1''\<rparr>,
                     \<lparr>victorOpsUserId = ''U2'', slackUserId = ''S2''\<rparr>,
                     \<lparr>victorOpsUserId = ''U2'', slackUserId = ''S3''\<rparr>]\<rparr>"
        "[\<lparr>victorOpsUserId = ''U1'', slackUserId = ''S1''\<rparr>]"
        "\<lparr>victorOpsUserId = ''U2'', slackUserId = ''S2''\<rparr>"
        "[\<lparr>victorOpsUserId = ''U2'', slackUserId = ''S3''\<rparr>]"
        "''U2''"]
  by simp

section \<open>The relay posts the translated pair\<close>

text \<open>
  C1, as amended. When the group of an \<open>updateOnCall\<close> event resolves to a stored
  record \<open>r\<close>, the first member of \<open>r\<close> with the event's user is \<open>m\<close>, and the secrets
  manager returns a credential \<open>tok\<close>, the relay issues exactly one outbound request:
  a POST to the membership endpoint with the bearer credential, whose JSON body is
  \<open>{ usergroup: r.slackUserGroupId, users: m.slackUserId }\<close>. This holds in
  \<open>src/index.js\<close> and in the rotation file.
\<close>

theorem relay_posts_once:
  assumes "rotations s (ev_group ev) = Some r"
    and "find (\<lambda>m. victorOpsUserId m = ev_user ev) (members r) = Some m"
    and "secretString E (SLACK_TOKEN_SECRET_NAME E) = Some tok"
  shows "filter is_Fetch (trace (snd (handleUpdateOnCall_rot E ev s))) =
           filter is_Fetch (trace s) @
           [Fetch \<lparr>req_url = ''https://slack.com/api/usergroups.users.update'',
                   req_method = ''POST'',
                   req_headers = [(''Content-Type'', ''application/json; charset=utf8''),
                                  (''Authorization'', ''Bearer '' @ tok)],
                   req_body = JObj [(''usergroup'', JStr (slackUserGroupId r)),
                                    (''users'', JStr (slackUserId m))]\<rparr>]
       \<and> filter is_Fetch (trace (snd (handleUpdateOnCall_index E ev s))) =
           filter is_Fetch (trace s) @
           [Fetch \<lparr>req_url = ''https://slack.com/api/usergroups.users.update'',
                   req_method = ''POST'',
                   req_headers = [(''Content-Type'', ''application/json; charset=utf8''),
                                  (''Authorization'', ''Bearer '' @ tok)],
                   req_body = JObj [(''usergroup'', JStr (slackUserGroupId r)),
                                    (''users'', JStr (slackUserId m))]\<rparr>]"
  using assms
  by (simp add: handleUpdateOnCall_rot_def handleUpdateOnCall_index_def getRotation_run
      getSlackUserId_index_rot getSlackUserId_rot_def updateSlackUserGroup_rot_run
      updateSlackUserGroup_index_run usergroups_request_def
      io_defs Let_def split: option.splits)

text \<open>
  The specification's example: mapping \<open>G1 \<mapsto> SG1\<close> with members \<open>U1 \<mapsto> S1\<close> and
  \<open>U2 \<mapsto> S2\<close>, event for group \<open>G1\<close> and user \<open>U2\<close>, credential \<open>xoxb\<close>.
\<close>

theorem relay_posts_once_witness:
  "filter is_Fetch (trace (snd (handleUpdateOnCall_rot
       (example_env [''SlackToken'' \<mapsto> ''xoxb''] slack_ok)
       (example_event ''updateOnCall'' ''G1'' ''U2'' None) example_state))) =
     [Fetch \<lparr>req_url = ''https://slack.com/api/usergroups.users.update'',
             req_method = ''POST'',
             req_headers = [(''Content-Type'', ''application/json; charset=utf8''),
                            (''Authorization'', ''Bearer xoxb'')],
             req_body = JObj [(''usergroup'', JStr ''SG1''), (''users'', JStr ''S2'')]\<rparr>]
   \<and> filter is_Fetch (trace (snd (handleUpdateOnCall_index
       (example_env [''SlackToken'' \<mapsto> ''xoxb''] slack_ok)
       (example_event ''updateOnCall'' ''G1'' ''U2'' None) example_state))) =
     [Fetch \<lparr>req_url = ''https://slack.com/api/usergroups.users.update'',
             req_method = ''POST'',
             req_headers = [(''Content-Type'', ''application/json; charset=utf8''),
                            (''Authorization'', ''Bearer xoxb'')],
             req_body = JObj [(''usergroup'', JStr ''SG1''), (''users'', JStr ''S2'')]\<rparr>]"
  using relay_posts_once
    [of example_state "example_event ''updateOnCall'' ''G1'' ''U2'' None" example_record
        "\<lparr>victorOpsUserId = ''U2'', slackUserId = ''S2''\<rparr>"
        "example_env [''SlackToken'' \<mapsto> ''xoxb''] slack_ok" "''xoxb''"]
  by (simp add: example_defs)

text \<open>
  C1 as written does not ask for the credential. With the same mapping and event and a
  secrets manager that returns no \<open>SecretString\<close>, the group resolves, the user matches
  the member with Slack id \<open>S2\<close>, and the relay issues no request at all.
\<close>

theorem relay_without_secret_counterexample:
  "rotations example_state ''G1'' = Some example_record
   \<and> getSlackUserId_rot example_record ''U2'' = Some ''S2''
   \<and> filter is_Fetch (trace (snd (handleUpdateOnCall_rot (example_env Map.empty slack_ok)
         (example_event ''updateOnCall'' ''G1'' ''U2'' None) example_state))) = []"
  by (simp add: handleUpdateOnCall_rot_def getRotation_run
      getSlackUserId_rot_def example_defs io_defs)

section \<open>A user that matches no member\<close>

text \<open>
  In the rotation file the member check comes before the secret: an event whose group
  resolves and whose user matches no member gets \<open>null\<close> after one store read and one
  log line.
\<close>

lemma unmatched_member_short_circuits_rot:
  assumes "rotations s (ev_group ev) = Some r"
    and "find (\<lambda>m. victorOpsUserId m = ev_user ev) (members r) = None"
  shows "handleUpdateOnCall_rot E ev s =
           (Inr RNull,
            s\<lparr>trace := trace s @
                 [DbGet ROTATIONS_TABLE (ev_group ev),
                  ConsoleLog (''Slack user ID not found for victorOpsUserId: '' @ ev_user ev)]\<rparr>)"
  using assms
  by (simp add: handleUpdateOnCall_rot_def getRotation_run getSlackUserId_rot_def io_defs)

text \<open>
  C2. \<open>src/index.js\<close> calls \<open>SecretsStore.getSecret\<close> (line 103) before it looks at
  \<open>slackUser\<close> (line 105): for the example mapping and an event for group \<open>G1\<close> and the
  unknown user \<open>U9\<close> it returns \<open>null\<close> and posts nothing, but it has retrieved the
  secret.
\<close>

theorem unmatched_member_index_retrieves_secret:
  "rotations example_state ''G1'' = Some example_record
   \<and> getSlackUserId_index example_record ''U9'' = None
   \<and> handleUpdateOnCall_index (example_env Map.empty slack_ok)
        (example_event ''updateOnCall'' ''G1'' ''U9'' None) example_state =
      (Inr RNull,
       example_state\<lparr>trace :=
          [DbGet ROTATIONS_TABLE ''G1'', GetSecretValue ''SlackToken'',
           ConsoleLog ''Slack user ID not found for victorOpsUserId: U9'']\<rparr>)"
  by (simp add: handleUpdateOnCall_index_def getRotation_run getSlackUserId_index_def
      example_defs io_defs)

section \<open>A chat API that answers with a non-success status\<close>

text \<open>
  In the rotation file the updater looks at \<open>resp.ok\<close>: on a non-success status it
  makes its one request, logs, and returns nothing, whatever the body is; the relay
  then answers with the body \<open>{}\<close>.
\<close>

lemma failed_update_rot:
  assumes "\<not> resp_ok (slackApi E (usergroups_request g u tok))"
  shows "updateSlackUserGroup_rot E g u tok s =
           (Inr None,
            s\<lparr>trace := trace s @
                 [Fetch (usergroups_request g u tok),
                  ConsoleLog ''Failed to update slack user group: [object Response]'']\<rparr>)"
  using assms by (simp add: updateSlackUserGroup_rot_run Let_def)

lemma failed_update_relay_rot:
  assumes "rotations s (ev_group ev) = Some r"
    and "find (\<lambda>m. victorOpsUserId m = ev_user ev) (members r) = Some m"
    and "secretString E (SLACK_TOKEN_SECRET_NAME E) = Some tok"
    and "\<not> resp_ok (slackApi E (usergroups_request (slackUserGroupId r) (slackUserId m) tok))"
  shows "fst (handleUpdateOnCall_rot E ev s) = Inr (RBody (JObj []))"
  using assms
  by (simp add: handleUpdateOnCall_rot_def getRotation_run getSlackUserId_rot_def
      updateSlackUserGroup_rot_run io_defs Let_def nullish_def)

text \<open>
  C3. \<open>src/index.js\<close> returns \<open>resp.json()\<close> without a look at \<open>resp.ok\<close>
  (lines 77-86). For the example mapping, the event for group \<open>G1\<close> and user \<open>U2\<close>, and
  a chat API that answers with a non-success status: the updater returns the parsed error
  body and logs nothing, the relay hands that body to the caller; when the body is not
  JSON, the updater and the relay throw.
\<close>

theorem failed_update_index_relays_response:
  "\<not> resp_ok (slack_refuses (usergroups_request ''SG1'' ''S2'' ''xoxb''))
   \<and> updateSlackUserGroup_index (example_env [''SlackToken'' \<mapsto> ''xoxb''] slack_refuses)
        ''SG1'' ''S2'' ''xoxb'' example_state =
      (Inr (JObj [(''ok'', JBool False), (''error'', JStr ''ratelimited'')]),
       example_state\<lparr>trace := [Fetch (usergroups_request ''SG1'' ''S2'' ''xoxb'')]\<rparr>)
   \<and> fst (handleUpdateOnCall_index (example_env [''SlackToken'' \<mapsto> ''xoxb''] slack_refuses)
        (example_event ''updateOnCall'' ''G1'' ''U2'' None) example_state) =
      Inr (RBody (JObj [(''ok'', JBool False), (''error'', JStr ''ratelimited'')]))
   \<and> fst (updateSlackUserGroup_index (example_env [''SlackToken'' \<mapsto> ''xoxb''] slack_unavailable)
        ''SG1'' ''S2'' ''xoxb'' example_state) = Inl SyntaxError
   \<and> fst (handleUpdateOnCall_index (example_env [''SlackToken'' \<mapsto> ''xoxb''] slack_unavailable)
        (example_event ''updateOnCall'' ''G1'' ''U2'' None) example_state) = Inl SyntaxError"
  by (simp add: handleUpdateOnCall_index_def getRotation_run getSlackUserId_index_def
      updateSlackUserGroup_index_run example_defs io_defs Let_def)

section \<open>Reading a rotation\<close>

text \<open>
  In the rotation file the body of a \<open>getRotation\<close> answer is the stored record, or
  \<open>{}\<close> when the key has none.
\<close>

lemma handleGetRotation_rot_body:
  "fst (handleGetRotation_rot ev s) =
     Inr (RBody (case rotations s (ev_victorOpsGroupId ev) of
                   None \<Rightarrow> JObj [] | Some r \<Rightarrow> Record_json r))"
  by (simp add: handleGetRotation_rot_def getRotation_run io_defs split: option.splits)

text \<open>
  C5. \<open>src/index.js\<close> serialises \<open>resp?.Item ?? {}\<close> (line 192), where \<open>resp\<close> is the
  \<open>Record\<close> that \<open>getRotation\<close> built, which has no property \<open>Item\<close>: with the
  example mapping stored under \<open>G1\<close>, a \<open>getRotation\<close> event for \<open>G1\<close> is answered
  with the body \<open>{}\<close>, by the handler and by the dispatcher.
\<close>

theorem handleGetRotation_index_drops_record:
  "rotations example_state ''G1'' = Some example_record
   \<and> fst (handleGetRotation_index (example_event ''getRotation'' ''G1'' ''U2'' None)
            example_state)
       = Inr (RBody (JObj []))
   \<and> fst (handler_index (example_env Map.empty slack_ok)
             (example_event ''getRotation'' ''G1'' ''U2'' None) example_state)
       = Inr (RBody (JObj []))"
  by (simp add: handler_index_def handleGetRotation_index_def getRotation_run Record_property_def
      Record_json_def log_resp_def nullish_def example_defs io_defs)

section \<open>A secrets manager without the secret\<close>

text \<open>
  C7. When the secrets manager returns no \<open>SecretString\<close> for the configured name,
  \<open>handleUpdateOnCall\<close> returns \<open>null\<close> and makes no request to the chat API, for every
  event and every content of the store, in each of the three files.
\<close>

theorem absent_secret_no_post:
  assumes "secretString E (SLACK_TOKEN_SECRET_NAME E) = None"
  shows "fst (handleUpdateOnCall_index E ev s) = Inr RNull
       \<and> filter is_Fetch (trace (snd (handleUpdateOnCall_index E ev s))) = filter is_Fetch (trace s)
       \<and> fst (handleUpdateOnCall_rot E ev s) = Inr RNull
       \<and> filter is_Fetch (trace (snd (handleUpdateOnCall_rot E ev s))) = filter is_Fetch (trace s)
       \<and> fst (handleUpdateOnCall_team E ev s) = Inr RNull
       \<and> filter is_Fetch (trace (snd (handleUpdateOnCall_team E ev s))) = filter is_Fetch (trace s)"
  using assms
  by (simp add: handleUpdateOnCall_rot_def handleUpdateOnCall_index_def handleUpdateOnCall_team_def
      getRotation_run getTeam_run getUser_run io_defs Let_def split: option.splits)

text \<open>
  The example mapping and the event for group \<open>G1\<close> and user \<open>U2\<close>: group and member
  are found, the secret is asked for and is absent. The last conjunct runs the teams
  file on its own two tables, where team and user are found.
\<close>

theorem absent_secret_no_post_witness:
  "secretString (example_env Map.empty slack_ok)
      (SLACK_TOKEN_SECRET_NAME (example_env Map.empty slack_ok)) = None
   \<and> handleUpdateOnCall_rot (example_env Map.empty slack_ok)
        (example_event ''updateOnCall'' ''G1'' ''U2'' None) example_state =
      (Inr RNull,
       example_state\<lparr>trace :=
          [DbGet ROTATIONS_TABLE ''G1'', GetSecretValue ''SlackToken'',
           ConsoleLog ''Failed to retrieve secret: SlackToken'']\<rparr>)
   \<and> fst (handleUpdateOnCall_index (example_env Map.empty slack_ok)
        (example_event ''updateOnCall'' ''G1'' ''U2'' None) example_state) = Inr RNull
   \<and> filter is_Fetch (trace (snd (handleUpdateOnCall_index (example_env Map.empty slack_ok)
        (example_event ''updateOnCall'' ''G1'' ''U2'' None) example_state))) = []
   \<and> fst (handleUpdateOnCall_team (example_env Map.empty slack_ok)
        (example_event ''updateOnCall'' ''G1'' ''U2'' None) example_state) = Inr RNull
   \<and> filter is_Fetch (trace (snd (handleUpdateOnCall_team (example_env Map.empty slack_ok)
        (example_event ''updateOnCall'' ''G1'' ''U2'' None) example_state))) = []
   \<and> handleUpdateOnCall_team (example_env Map.empty slack_ok)
        (example_event ''updateOnCall'' ''G1'' ''U2'' None) example_team_state =
      (Inr RNull,
       example_team_state\<lparr>trace :=
          [DbGet TEAMS_TABLE ''G1'', DbGet USERS_TABLE ''U2'', GetSecretValue ''SlackToken'',
           ConsoleLog ''Failed to retrieve secret: SlackToken'']\<rparr>)"
  using absent_secret_no_post
    [of "example_env Map.empty slack_ok" "example_event ''updateOnCall'' ''G1'' ''U2'' None"
        example_state]
    absent_secret_no_post
    [of "example_env Map.empty slack_ok" "example_event ''updateOnCall'' ''G1'' ''U2'' None"
        example_team_state]
  by (simp add: handleUpdateOnCall_rot_def handleUpdateOnCall_team_def getRotation_run
      getTeam_run getUser_run getSlackUserId_rot_def example_defs io_defs)

section \<open>Writing and reading back\<close>

text \<open>
  C8. After a \<open>putRotation\<close> event \<open>ev\<close> that carries members \<open>ms\<close>,
  \<open>getRotation\<close> with the event's key returns the record made of the event's
  \<open>victorOpsGroupId\<close>, \<open>slackUserGroupId\<close> and \<open>ms\<close>, in \<open>src/index.js\<close> and in the
  rotation file; in the rotation file a \<open>getRotation\<close> event \<open>q\<close> for that key is
  answered with that record as body. After a second \<open>putRotation\<close> event \<open>ev2\<close> with
  the same key, the same reads return the record of \<open>ev2\<close> alone.
\<close>

theorem put_then_get_roundtrip:
  assumes "ev_operation ev = ''putRotation''" and "ev_members ev = Some ms"
    and "ev_operation ev2 = ''putRotation''" and "ev_members ev2 = Some ms2"
    and "ev_victorOpsGroupId ev2 = ev_victorOpsGroupId ev"
    and "ev_operation q = ''getRotation''"
    and "ev_victorOpsGroupId q = ev_victorOpsGroupId ev"
  shows "fst (getRotation (ev_victorOpsGroupId ev) (snd (handler_rot E ev s))) =
           Inr (Some \<lparr>victorOpsGroupId = ev_victorOpsGroupId ev,
                       slackUserGroupId = ev_slackUserGroupId ev, members = ms\<rparr>)
       \<and> fst (getRotation (ev_victorOpsGroupId ev) (snd (handler_index E ev s))) =
           Inr (Some \<lparr>victorOpsGroupId = ev_victorOpsGroupId ev,
                       slackUserGroupId = ev_slackUserGroupId ev, members = ms\<rparr>)
       \<and> fst (handler_rot E q (snd (handler_rot E ev s))) =
           Inr (RBody (Record_json \<lparr>victorOpsGroupId = ev_victorOpsGroupId ev,
                                     slackUserGroupId = ev_slackUserGroupId ev, members = ms\<rparr>))
       \<and> fst (getRotation (ev_victorOpsGroupId ev)
                (snd (handler_rot E ev2 (snd (handler_rot E ev s))))) =
           Inr (Some \<lparr>victorOpsGroupId = ev_victorOpsGroupId ev2,
                       slackUserGroupId = ev_slackUserGroupId ev2, members = ms2\<rparr>)
       \<and> fst (getRotation (ev_victorOpsGroupId ev)
                (snd (handler_index E ev2 (snd (handler_index E ev s))))) =
           Inr (Some \<lparr>victorOpsGroupId = ev_victorOpsGroupId ev2,
                       slackUserGroupId = ev_slackUserGroupId ev2, members = ms2\<rparr>)
       \<and> fst (handler_rot E q (snd (handler_rot E ev2 (snd (handler_rot E ev s))))) =
           Inr (RBody (Record_json \<lparr>victorOpsGroupId = ev_victorOpsGroupId ev2,
                                     slackUserGroupId = ev_slackUserGroupId ev2,
                                     members = ms2\<rparr>))"
  using assms
  by (simp add: handler_rot_def handler_index_def handlePutRotation_rot_run
      handlePutRotation_index_run handleGetRotation_rot_def getRotation_run log_resp_def
      io_defs Let_def)

text \<open>
  First the example record is written under \<open>G1\<close> into an empty store, then a record
  for the same key with another Slack group and one other member.
\<close>

theorem put_then_get_roundtrip_witness:
  "fst (handler_rot (example_env Map.empty slack_ok)
          (example_event ''getRotation'' ''G1'' ''U2'' None)
          (snd (handler_rot (example_env Map.empty slack_ok)
                  (example_event ''putRotation'' ''G1'' ''U2'' (Some (members example_record)))
                  (example_state\<lparr>rotations := Map.empty\<rparr>)))) =
     Inr (RBody (Record_json example_record))
   \<and> fst (getRotation ''G1''
          (snd (handler_index (example_env Map.empty slack_ok)
                  ((example_event ''putRotation'' ''G1'' ''U2''
                      (Some [\<lparr>victorOpsUserId = ''U3'', slackUserId = ''S3''\<rparr>]))
                     \<lparr>ev_slackUserGroupId := ''SG2''\<rparr>)
                  (snd (handler_index (example_env Map.empty slack_ok)
                          (example_event ''putRotation'' ''G1'' ''U2''
                             (Some (members example_record)))
                          (example_state\<lparr>rotations := Map.empty\<rparr>)))))) =
     Inr (Some \<lparr>victorOpsGroupId = ''G1'', slackUserGroupId = ''SG2'',
                 members = [\<lparr>victorOpsUserId = ''U3'', slackUserId = ''S3''\<rparr>]\<rparr>)"
  using put_then_get_roundtrip
    [of "example_event ''putRotation'' ''G1'' ''U2'' (Some (members example_record))"
        "members example_record"
        "(example_event ''putRotation'' ''G1'' ''U2''
            (Some [\<lparr>victorOpsUserId = ''U3'', slackUserId = ''S3''\<rparr>]))
           \<lparr>ev_slackUserGroupId := ''SG2''\<rparr>"
        "[\<lparr>victorOpsUserId = ''U3'', slackUserId = ''S3''\<rparr>]"
        "example_event ''getRotation'' ''G1'' ''U2'' None"
        "example_env Map.empty slack_ok"
        "example_state\<lparr>rotations := Map.empty\<rparr>"]
  by (simp add: example_defs)

section \<open>An operation outside the switch\<close>

text \<open>
  C9. For an event whose operation is none of the \<open>case\<close> labels of a dispatcher, the
  dispatcher returns the empty object \<open>{}\<close> and does not throw; all it does is write
  three log lines (the request, the unrecognized operation, the response): no table is
  read or changed, no secret is asked for, no request is sent. The labels are
  \<open>updateOnCall\<close>, \<open>putRotation\<close>, \<open>getRotation\<close>, \<open>deleteRotation\<close> in
  \<open>src/index.js\<close> and the rotation file, and \<open>updateOnCall\<close> with the six team and
  user operations in the teams file.
\<close>

theorem unrecognized_operation:
  "(ev_operation ev \<notin> {''updateOnCall'', ''putRotation'', ''getRotation'', ''deleteRotation''} \<longrightarrow>
      handler_index E ev s =
        (Inr REmptyObject,
         s\<lparr>trace := trace s @ [ConsoleLogReq ev,
              ConsoleLog (''Unrecognized operation: '' @ ev_operation ev),
              ConsoleLogResp REmptyObject]\<rparr>)
      \<and> handler_rot E ev s =
        (Inr REmptyObject,
         s\<lparr>trace := trace s @ [ConsoleLogReq ev,
              ConsoleLog (''Unrecognized operation: '' @ ev_operation ev),
              ConsoleLogResp REmptyObject]\<rparr>))
   \<and> (ev_operation ev \<notin> {''updateOnCall'', ''putTeam'', ''getTeam'', ''deleteTeam'',
                            ''putUser'', ''getUser'', ''deleteUser''} \<longrightarrow>
      handler_team E ev s =
        (Inr REmptyObject,
         s\<lparr>trace := trace s @ [ConsoleLogReq ev,
              ConsoleLog (''Unrecognized operation: '' @ ev_operation ev),
              ConsoleLogResp REmptyObject]\<rparr>))"
  by (simp add: handler_index_def handler_rot_def handler_team_def unrecognized_def log_resp_def
      io_defs Let_def)

theorem unrecognized_operation_witness:
  "handler_index (example_env Map.empty slack_ok)
        (example_event ''listRotations'' ''G1'' ''U2'' None) example_state =
        (Inr REmptyObject,
         example_state\<lparr>trace := [ConsoleLogReq (example_event ''listRotations'' ''G1'' ''U2'' None),
              ConsoleLog ''Unrecognized operation: listRotations'',
              ConsoleLogResp REmptyObject]\<rparr>)
   \<and> handler_rot (example_env Map.empty slack_ok)
        (example_event ''listRotations'' ''G1'' ''U2'' None) example_state =
        (Inr REmptyObject,
         example_state\<lparr>trace := [ConsoleLogReq (example_event ''listRotations'' ''G1'' ''U2'' None),
              ConsoleLog ''Unrecognized operation: listRotations'',
              ConsoleLogResp REmptyObject]\<rparr>)
   \<and> handler_team (example_env Map.empty slack_ok)
        (example_event ''listRotations'' ''G1'' ''U2'' None) example_state =
        (Inr REmptyObject,
         example_state\<lparr>trace := [ConsoleLogReq (example_event ''listRotations'' ''G1'' ''U2'' None),
              ConsoleLog ''Unrecognized operation: listRotations'',
              ConsoleLogResp REmptyObject]\<rparr>)"
  using unrecognized_operation [of "example_event ''listRotations'' ''G1'' ''U2'' None"
      "example_env Map.empty slack_ok" example_state]
  by (simp add: example_defs)

section \<open>A put without members\<close>

text \<open>
  C10. For a \<open>putRotation\<close> event without a \<open>members\<close> property,
  \<open>handlePutRotation\<close> throws a \<open>TypeError\<close> and leaves the store and the trace as
  they were: nothing is written. The dispatcher has logged the request and lets the
  exception through, so the invocation fails; it does not log a response and does not
  return an empty result. This holds in \<open>src/index.js\<close> and in the rotation file.
\<close>

theorem put_without_members_throws:
  assumes "ev_operation ev = ''putRotation''" and "ev_members ev = None"
  shows "handlePutRotation_index E ev s = (Inl TypeError, s)
       \<and> handlePutRotation_rot E ev s = (Inl TypeError, s)
       \<and> handler_index E ev s = (Inl TypeError, s\<lparr>trace := trace s @ [ConsoleLogReq ev]\<rparr>)
       \<and> handler_rot E ev s = (Inl TypeError, s\<lparr>trace := trace s @ [ConsoleLogReq ev]\<rparr>)"
  using assms
  by (simp add: handler_index_def handler_rot_def handlePutRotation_index_run
      handlePutRotation_rot_run io_defs Let_def)

theorem put_without_members_throws_witness:
  "handlePutRotation_index (example_env Map.empty slack_ok)
      (example_event ''putRotation'' ''G2'' ''U2'' None) example_state
     = (Inl TypeError, example_state)
   \<and> handlePutRotation_rot (example_env Map.empty slack_ok)
      (example_event ''putRotation'' ''G2'' ''U2'' None) example_state
     = (Inl TypeError, example_state)
   \<and> handler_index (example_env Map.empty slack_ok)
      (example_event ''putRotation'' ''G2'' ''U2'' None) example_state
     = (Inl TypeError,
        example_state\<lparr>trace := [ConsoleLogReq (example_event ''putRotation'' ''G2'' ''U2'' None)]\<rparr>)
   \<and> handler_rot (example_env Map.empty slack_ok)
      (example_event ''putRotation'' ''G2'' ''U2'' None) example_state
     = (Inl TypeError,
        example_state\<lparr>trace := [ConsoleLogReq (example_event ''putRotation'' ''G2'' ''U2'' None)]\<rparr>)"
  using put_without_members_throws
    [of "example_event ''putRotation'' ''G2'' ''U2'' None" "example_env Map.empty slack_ok"
        example_state]
  by (simp add: example_defs)

section \<open>What the dispatcher returns\<close>




end
